theory Spec2Isabelle
  imports Complex_Main
begin

section \<open>Thunder Hole tracker: tide direction, viewing time and fetch adapter\<close>

text \<open>
  A shallow embedding of \<^verbatim>\<open>src/components/thunder-hole-tracker.tsx\<close>.

  Numbers. A JavaScript time value is an integral number of milliseconds since the epoch;
  it is modelled as \<^typ>\<open>int\<close>. Invalid dates (\<^verbatim>\<open>NaN\<close>) and time values beyond the
  range of \<^verbatim>\<open>Date\<close> (more than 8.64e15 ms from the epoch) are outside the model.
  The quotient \<^verbatim>\<open>hoursFromNow\<close> is the exact rational; the program holds the double
  nearest to it.

  Host functions. Date parsing, locale formatting and the local time zone belong to the
  JavaScript host, not to the program; they are the fields of an environment record that
  every operation takes as its first argument. The offset of the time zone may change with
  time, as it does at a daylight-saving change.
\<close>

subsection \<open>Data model\<close>

text \<open>\<^verbatim>\<open>type Prediction = { t: string; v: string; type: 'H' | 'L' }\<close>. The fields are
  prefixed, since \<open>t\<close> and \<open>v\<close> would capture variable names. The marker is kept a
  string: the value comes from parsed JSON and the program only compares it with \<^verbatim>\<open>'H'\<close>.\<close>

record Prediction =
  p_t :: string
  p_v :: string
  p_type :: string

record Tide =
  time :: string
  date :: string
  height :: string
  type :: string
  timestamp :: int

record Coordinates =
  lat :: rat
  lon :: rat

text \<open>\<^verbatim>\<open>nextTide\<close> is \<open>None\<close> where the program stores \<^verbatim>\<open>undefined\<close>
  (\<^verbatim>\<open>tides[0]\<close> of an empty array).\<close>

record TideData =
  location :: string
  coordinates :: Coordinates
  tides :: "Tide list"
  nextTide :: "Tide option"
  currentTide :: string

text \<open>The object returned by \<^verbatim>\<open>calculateThunderHoleTime\<close>.\<close>

record ThunderHoleTime =
  time :: string
  date :: string
  relatedTide :: Tide
  timestamp :: int
  hoursFromNow :: rat

text \<open>The three \<^verbatim>\<open>useState\<close> cells of the component.\<close>

record State =
  tideData :: "TideData option"
  loading :: bool
  error :: "string option"

subsection \<open>The host environment\<close>

record Env =
  offsetAtUTC :: "int \<Rightarrow> int"
  offsetAtLocal :: "int \<Rightarrow> int"
  parseDate :: "string \<Rightarrow> int"
  toLocaleTimeString :: "int \<Rightarrow> string"
  toLocaleDateString :: "int \<Rightarrow> string"
  heightToFixed :: "string \<Rightarrow> string"

text \<open>
  \<^item> \<open>offsetAtUTC x\<close>: local time minus UTC, in milliseconds, in force at the instant \<open>x\<close>
    (the language standard's \<^verbatim>\<open>LocalTZA(x, true)\<close>);
  \<^item> \<open>offsetAtLocal t\<close>: the same offset, for the local clock reading \<open>t\<close>, itself
    written as milliseconds since the epoch (\<^verbatim>\<open>LocalTZA(t, false)\<close>);
  \<^item> \<open>parseDate s\<close>: \<^verbatim>\<open>new Date(s).getTime()\<close>;
  \<^item> \<open>toLocaleTimeString x\<close>:
    \<^verbatim>\<open>new Date(x).toLocaleTimeString([], { hour: '2-digit', minute: '2-digit' })\<close>;
  \<^item> \<open>toLocaleDateString x\<close>: \<^verbatim>\<open>new Date(x).toLocaleDateString()\<close>;
  \<^item> \<open>heightToFixed s\<close>: \<^verbatim>\<open>parseFloat(s).toFixed(1)\<close>.
\<close>

definition msPerDay :: int where
  "msPerDay = 24 * 60 * 60 * 1000"

text \<open>\<^verbatim>\<open>d.setHours(h, m, 0, 0)\<close> on a date with time value \<open>x\<close>, as the language standard
  defines it: \<open>x\<close> is turned into local time with the offset in force at \<open>x\<close>; the local
  calendar day is kept and the time of day replaced; the result is turned back with the
  offset that applies to the new local time. The two offsets differ when the offset changes
  between \<open>x\<close> and the new time of day.\<close>

definition setHours :: "Env \<Rightarrow> int \<Rightarrow> int \<Rightarrow> int \<Rightarrow> int" where
  "setHours env h m x =
     (let t = x + offsetAtUTC env x;
          date = (t div msPerDay) * msPerDay + (h * 60 * 60 * 1000 + m * 60 * 1000)
      in date - offsetAtLocal env date)"

subsection \<open>Array helpers\<close>

text \<open>\<^verbatim>\<open>xs[0]\<close>: the first element, \<^verbatim>\<open>undefined\<close> (\<open>None\<close>) on an empty array.\<close>

definition index0 :: "'a list \<Rightarrow> 'a option" where
  "index0 xs = (case xs of [] \<Rightarrow> None | x # _ \<Rightarrow> Some x)"

text \<open>\<^verbatim>\<open>xs.slice(-1)\<close>: the array of the last element, empty on an empty array.\<close>

definition sliceLast :: "'a list \<Rightarrow> 'a list" where
  "sliceLast xs = drop (length xs - 1) xs"

subsection \<open>Tide direction classifier\<close>

text \<open>\<^verbatim>\<open>futureTides[0]\<close> is read only where \<open>futureTides\<close> has at least two elements.
  \<^verbatim>\<open>!prevTide\<close> holds exactly when \<^verbatim>\<open>prevTide\<close> is \<^verbatim>\<open>undefined\<close>: a tide object is truthy.\<close>

definition getCurrentTideDirection :: "Tide list \<Rightarrow> int \<Rightarrow> string" where
  "getCurrentTideDirection tds now =
     (let futureTides = filter (\<lambda>tide. Tide.timestamp tide > now) tds in
      if length futureTides < 2 then ''Unknown''
      else
        (case index0 (sliceLast (filter (\<lambda>tide. Tide.timestamp tide < now) tds)) of
           None \<Rightarrow> ''Unknown''
         | Some prevTide \<Rightarrow>
             if Tide.type (futureTides ! 0) = ''High'' then ''Rising'' else ''Falling''))"

subsection \<open>Optimal viewing time calculator\<close>

text \<open>Lines 123 to 128: two hours past a low tide, three hours past any other tide.\<close>

definition thunderHoleTimeOf :: "Tide \<Rightarrow> int" where
  "thunderHoleTimeOf tide =
     (if Tide.type tide = ''Low'' then Tide.timestamp tide + 2 * 60 * 60 * 1000
      else Tide.timestamp tide + 3 * 60 * 60 * 1000)"

text \<open>The test of line 131, on the candidate time.\<close>

definition accepted :: "int \<Rightarrow> int \<Rightarrow> int \<Rightarrow> int \<Rightarrow> bool" where
  "accepted now sunrise sunset thunderHoleTime \<longleftrightarrow>
     thunderHoleTime > now \<and> thunderHoleTime \<ge> sunrise \<and> thunderHoleTime \<le> sunset"

text \<open>The object returned on acceptance, lines 132 to 138.\<close>

definition resultFor :: "Env \<Rightarrow> int \<Rightarrow> Tide \<Rightarrow> ThunderHoleTime" where
  "resultFor env now tide =
     (let thunderHoleTime = thunderHoleTimeOf tide in
      \<lparr> ThunderHoleTime.time = toLocaleTimeString env thunderHoleTime,
        ThunderHoleTime.date = toLocaleDateString env thunderHoleTime,
        relatedTide = tide,
        ThunderHoleTime.timestamp = thunderHoleTime,
        hoursFromNow = of_int (thunderHoleTime - now) / (1000 * 60 * 60) \<rparr>)"

text \<open>The \<^verbatim>\<open>for (let tide of tides)\<close> loop: the first accepted tide returns, the end of the
  array returns \<^verbatim>\<open>null\<close> (\<open>None\<close>).\<close>

fun tideLoop :: "Env \<Rightarrow> int \<Rightarrow> int \<Rightarrow> int \<Rightarrow> Tide list \<Rightarrow> ThunderHoleTime option" where
  "tideLoop env now sunrise sunset [] = None"
| "tideLoop env now sunrise sunset (tide # rest) =
     (if accepted now sunrise sunset (thunderHoleTimeOf tide) then Some (resultFor env now tide)
      else tideLoop env now sunrise sunset rest)"

text \<open>\<open>now\<close> is the clock reading of line 108.\<close>

definition calculateThunderHoleTime :: "Env \<Rightarrow> int \<Rightarrow> Tide list \<Rightarrow> ThunderHoleTime option" where
  "calculateThunderHoleTime env now tds =
     (let sunrise = setHours env 6 0 now;
          sunset = setHours env 19 30 now
      in tideLoop env now sunrise sunset tds)"

subsection \<open>The calculator with its clock readings\<close>

text \<open>
  The calculator reads the clock itself: once on line 108, and once more in every round
  of the loop on line 121, where the reading initialises \<^verbatim>\<open>thunderHoleTime\<close> and is
  overwritten on line 125 or 127. Time passes between the readings. A world holds the
  state cells of the component, the successive readings of the clock, and how many of them
  have been taken. The state cells belong to the world because the calculator is a closure
  of the component, with the setters in scope; it calls none of them.
\<close>

record World =
  component :: State
  clockReadings :: "nat \<Rightarrow> int"
  readsDone :: nat

text \<open>\<^verbatim>\<open>new Date()\<close>: the next reading of the clock.\<close>

definition newDate :: "World \<Rightarrow> int \<times> World" where
  "newDate w = (clockReadings w (readsDone w), w\<lparr> readsDone := Suc (readsDone w) \<rparr>)"

fun tideLoop_run ::
  "Env \<Rightarrow> int \<Rightarrow> int \<Rightarrow> int \<Rightarrow> Tide list \<Rightarrow> World \<Rightarrow> ThunderHoleTime option \<times> World" where
  "tideLoop_run env now sunrise sunset [] w = (None, w)"
| "tideLoop_run env now sunrise sunset (tide # rest) w =
     (case newDate w of
        (reading, w1) \<Rightarrow>
          (let thunderHoleTime = reading;
               thunderHoleTime =
                 (if Tide.type tide = ''Low'' then Tide.timestamp tide + 2 * 60 * 60 * 1000
                  else Tide.timestamp tide + 3 * 60 * 60 * 1000)
           in if accepted now sunrise sunset thunderHoleTime then
                (Some \<lparr> ThunderHoleTime.time = toLocaleTimeString env thunderHoleTime,
                         ThunderHoleTime.date = toLocaleDateString env thunderHoleTime,
                         relatedTide = tide,
                         ThunderHoleTime.timestamp = thunderHoleTime,
                         hoursFromNow = of_int (thunderHoleTime - now) / (1000 * 60 * 60) \<rparr>,
                 w1)
              else tideLoop_run env now sunrise sunset rest w1))"

definition calculateThunderHoleTime_run ::
  "Env \<Rightarrow> Tide list \<Rightarrow> World \<Rightarrow> ThunderHoleTime option \<times> World" where
  "calculateThunderHoleTime_run env tds w =
     (case newDate w of
        (now, w1) \<Rightarrow>
          (let sunrise = setHours env 6 0 now;
               sunset = setHours env 19 30 now
           in tideLoop_run env now sunrise sunset tds w1))"

subsection \<open>Fetch and normalise adapter\<close>

text \<open>A thrown value: an \<^verbatim>\<open>Error\<close> object with its message, or anything else.\<close>

datatype Thrown = ErrorObject string | OtherValue

text \<open>
  What the network hands back. The request URL is built from the clock and the station
  identifier and influences nothing but the reply, which is an input of the model.
  \<^item> \<open>JNull m\<close>: a parsed value on which reading \<^verbatim>\<open>data.error\<close> throws a
    \<^verbatim>\<open>TypeError\<close> with message \<open>m\<close>;
  \<^item> \<open>JObject e ps\<close>: \<open>e\<close> is \<open>Some msg\<close> when \<^verbatim>\<open>data.error\<close> is truthy, \<open>msg\<close>
    being the text of \<^verbatim>\<open>new Error(data.error.message).message\<close>; \<open>ps\<close> is \<open>Inr\<close> of the
    records when \<^verbatim>\<open>data.predictions\<close> is an array, and \<open>Inl m\<close> when
    \<^verbatim>\<open>data.predictions.map\<close> throws a \<^verbatim>\<open>TypeError\<close> with message \<open>m\<close>.
\<close>

datatype Json = JNull string | JObject "string option" "string + Prediction list"

text \<open>\<open>json\<close> is \<open>Inl\<close> of the thrown value when \<^verbatim>\<open>response.json()\<close> rejects.\<close>

record Response =
  ok :: bool
  status :: nat
  json :: "Thrown + Json"

text \<open>\<open>Rejected\<close>: the promise of \<^verbatim>\<open>fetch(url)\<close> rejects.\<close>

datatype Fetched = Rejected Thrown | Resolved Response

text \<open>Decimal digits of a status code, for the template string of line 54.\<close>

fun showNat :: "nat \<Rightarrow> string" where
  "showNat n =
     (if n < 10 then [char_of (48 + n)]
      else showNat (n div 10) @ [char_of (48 + n mod 10)])"

declare showNat.simps [simp del]

definition LOCATION_name :: string where
  "LOCATION_name = ''Swan's Island, Maine''"

definition LOCATION_lat :: rat where
  "LOCATION_lat = 44.1539"

definition LOCATION_lon :: rat where
  "LOCATION_lon = - 68.4447"

text \<open>The callback of \<^verbatim>\<open>data.predictions.map\<close>, lines 63 to 69.\<close>

definition toTide :: "Env \<Rightarrow> Prediction \<Rightarrow> Tide" where
  "toTide env prediction =
     \<lparr> Tide.time = toLocaleTimeString env (parseDate env (p_t prediction)),
       Tide.date = toLocaleDateString env (parseDate env (p_t prediction)),
       height = heightToFixed env (p_v prediction),
       type = (if p_type prediction = ''H'' then ''High'' else ''Low''),
       Tide.timestamp = parseDate env (p_t prediction) \<rparr>"

text \<open>The object passed to \<^verbatim>\<open>setTideData\<close>, lines 72 to 81. \<^verbatim>\<open>find\<close> returns a tide
  object (truthy) or \<^verbatim>\<open>undefined\<close>, so \<^verbatim>\<open>||\<close> falls back exactly on \<open>None\<close>.\<close>

definition makeTideData :: "Tide list \<Rightarrow> int \<Rightarrow> TideData" where
  "makeTideData tds now =
     (let currentTideDirection = getCurrentTideDirection tds now in
      \<lparr> location = LOCATION_name,
        coordinates = \<lparr> lat = LOCATION_lat, lon = LOCATION_lon \<rparr>,
        tides = tds,
        nextTide = (case find (\<lambda>tide. Tide.timestamp tide > now) tds of
                      Some tide \<Rightarrow> Some tide
                    | None \<Rightarrow> index0 tds),
        currentTide = currentTideDirection \<rparr>)"

text \<open>The body of \<^verbatim>\<open>try\<close>: \<open>Inl\<close> is the value thrown, \<open>Inr\<close> the dataset stored.
  \<open>now\<close> is the clock reading of line 72.\<close>

definition tryFetch :: "Env \<Rightarrow> int \<Rightarrow> Fetched \<Rightarrow> Thrown + TideData" where
  "tryFetch env now fetched =
     (case fetched of
        Rejected err \<Rightarrow> Inl err
      | Resolved response \<Rightarrow>
          if \<not> ok response then
            Inl (ErrorObject (''NOAA API error: '' @ showNat (status response)))
          else
            (case json response of
               Inl err \<Rightarrow> Inl err
             | Inr (JNull m) \<Rightarrow> Inl (ErrorObject m)
             | Inr (JObject (Some msg) ps) \<Rightarrow> Inl (ErrorObject msg)
             | Inr (JObject None (Inl m)) \<Rightarrow> Inl (ErrorObject m)
             | Inr (JObject None (Inr predictions)) \<Rightarrow>
                 Inr (makeTideData (map (toTide env) predictions) now)))"

text \<open>The message stored by the \<^verbatim>\<open>catch\<close> block, lines 84 to 88.\<close>

definition catchMessage :: "Thrown \<Rightarrow> string" where
  "catchMessage err =
     (case err of
        ErrorObject message \<Rightarrow> ''Failed to fetch tide data: '' @ message
      | OtherValue \<Rightarrow> ''Failed to fetch tide data: Unknown error'')"

text \<open>\<^verbatim>\<open>fetchNOAATideData\<close> as a transition of the component state: the two setters
  before \<^verbatim>\<open>try\<close>, then the dataset or the \<^verbatim>\<open>catch\<close> block, then \<^verbatim>\<open>finally\<close>.\<close>

definition fetchNOAATideData :: "Env \<Rightarrow> int \<Rightarrow> Fetched \<Rightarrow> State \<Rightarrow> State" where
  "fetchNOAATideData env now fetched s =
     (let s1 = s\<lparr> loading := True \<rparr>;
          s2 = s1\<lparr> error := None \<rparr>;
          s3 = (case tryFetch env now fetched of
                  Inr d \<Rightarrow> s2\<lparr> tideData := Some d \<rparr>
                | Inl err \<Rightarrow> s2\<lparr> error := Some (catchMessage err) \<rparr>)
      in s3\<lparr> loading := False \<rparr>)"

subsection \<open>A concrete host, for evaluating examples\<close>

text \<open>
  The examples below run in concrete hosts with the \<^verbatim>\<open>en-US\<close> locale, where timestamps
  written \<^verbatim>\<open>YYYY-MM-DD HH:MM\<close>, as the prediction service writes them, are read as local
  time. Days are counted from the epoch with the usual proleptic Gregorian calendar
  arithmetic. The functions take the offset functions of the host.
\<close>

definition digitsToInt :: "string \<Rightarrow> int" where
  "digitsToInt cs = foldl (\<lambda>n c. 10 * n + (int (of_char c) - 48)) 0 cs"

definition daysFromCivil :: "int \<Rightarrow> int \<Rightarrow> int \<Rightarrow> int" where
  "daysFromCivil y m d =
     (let y' = (if m \<le> 2 then y - 1 else y);
          era = y' div 400;
          yoe = y' - era * 400;
          doy = (153 * (if m > 2 then m - 3 else m + 9) + 2) div 5 + d - 1;
          doe = yoe * 365 + yoe div 4 - yoe div 100 + doy
      in era * 146097 + doe - 719468)"

definition civilFromDays :: "int \<Rightarrow> int \<times> int \<times> int" where
  "civilFromDays z =
     (let z' = z + 719468;
          era = z' div 146097;
          doe = z' - era * 146097;
          yoe = (doe - doe div 1460 + doe div 36524 - doe div 146096) div 365;
          doy = doe - (365 * yoe + yoe div 4 - yoe div 100);
          mp = (5 * doy + 2) div 153;
          d = doy - (153 * mp + 2) div 5 + 1;
          m = (if mp < 10 then mp + 3 else mp - 9);
          y = yoe + era * 400
      in (if m \<le> 2 then y + 1 else y, m, d))"

definition parseLocal :: "(int \<Rightarrow> int) \<Rightarrow> string \<Rightarrow> int" where
  "parseLocal offLocal s =
     (let t = daysFromCivil (digitsToInt (take 4 s)) (digitsToInt (take 2 (drop 5 s)))
                  (digitsToInt (take 2 (drop 8 s))) * msPerDay
                + digitsToInt (take 2 (drop 11 s)) * 60 * 60 * 1000
                + digitsToInt (take 2 (drop 14 s)) * 60 * 1000
      in t - offLocal t)"

definition twoDigits :: "int \<Rightarrow> string" where
  "twoDigits n = showNat (nat (n div 10)) @ showNat (nat (n mod 10))"

definition formatTime :: "(int \<Rightarrow> int) \<Rightarrow> int \<Rightarrow> string" where
  "formatTime offUTC x =
     (let tod = (x + offUTC x) mod msPerDay;
          h = tod div (60 * 60 * 1000);
          mi = (tod mod (60 * 60 * 1000)) div (60 * 1000)
      in twoDigits (if h mod 12 = 0 then 12 else h mod 12) @ '':'' @ twoDigits mi
           @ (if h < 12 then '' AM'' else '' PM''))"

definition formatDate :: "(int \<Rightarrow> int) \<Rightarrow> int \<Rightarrow> string" where
  "formatDate offUTC x =
     (case civilFromDays ((x + offUTC x) div msPerDay) of
        (y, m, d) \<Rightarrow> showNat (nat m) @ ''/'' @ showNat (nat d) @ ''/'' @ showNat (nat y))"

text \<open>The first host keeps US Eastern daylight time, four hours behind UTC, at all
  times; the examples that use it lie in June. The example heights are written with one
  decimal already, where \<^verbatim>\<open>parseFloat(s).toFixed(1)\<close> gives the string back.\<close>

definition hostEDT :: Env where
  "hostEDT =
     \<lparr> offsetAtUTC = (\<lambda>x. - (4 * 60 * 60 * 1000)),
       offsetAtLocal = (\<lambda>t. - (4 * 60 * 60 * 1000)),
       parseDate = parseLocal (\<lambda>t. - (4 * 60 * 60 * 1000)),
       toLocaleTimeString = formatTime (\<lambda>x. - (4 * 60 * 60 * 1000)),
       toLocaleDateString = formatDate (\<lambda>x. - (4 * 60 * 60 * 1000)),
       heightToFixed = (\<lambda>s. s) \<rparr>"




subsection \<open>Vocabulary for the statements\<close>

definition at0600 :: int where
  "at0600 = 6 * 60 * 60 * 1000"

definition at1930 :: int where
  "at1930 = 19 * 60 * 60 * 1000 + 30 * 60 * 1000"

text \<open>The events the program accepts at \<open>now\<close>: the test of line 131 on the candidate of
  the event, with the bounds of lines 111 to 114.\<close>

definition programAccepts :: "Env \<Rightarrow> int \<Rightarrow> Tide \<Rightarrow> bool" where
  "programAccepts env now tide \<longleftrightarrow>
     accepted now (setHours env 6 0 now) (setHours env 19 30 now) (thunderHoleTimeOf tide)"

text \<open>The specification's reading of the daylight test: the window from 06:00 to 19:30
  taken on the calendar date of the candidate itself.\<close>

definition spec_daylightOnOwnDate :: "Env \<Rightarrow> int \<Rightarrow> bool" where
  "spec_daylightOnOwnDate env c \<longleftrightarrow> setHours env 6 0 c \<le> c \<and> c \<le> setHours env 19 30 c"

text \<open>A host whose offset does not change during daylight: on every local day \<open>d\<close> the
  offset that applies at 06:00 also applies at 19:30 and is in force at every instant from
  the one to the other. Time zones change their offset at night; every host with a
  constant offset is of this kind.\<close>

definition steadyDaylightOffset :: "Env \<Rightarrow> bool" where
  "steadyDaylightOffset env \<longleftrightarrow>
     (\<forall>d. offsetAtLocal env (d * msPerDay + at1930) = offsetAtLocal env (d * msPerDay + at0600))
     \<and> (\<forall>d c. d * msPerDay + at0600 \<le> c + offsetAtLocal env (d * msPerDay + at0600)
              \<and> c + offsetAtLocal env (d * msPerDay + at0600) \<le> d * msPerDay + at1930
            \<longrightarrow> offsetAtUTC env c = offsetAtLocal env (d * msPerDay + at0600))"

subsection \<open>Example inputs\<close>

text \<open>The initial values of the three state cells.\<close>

definition initialState :: State where
  "initialState = \<lparr> tideData = None, loading = True, error = None \<rparr>"

definition lowAt0800 :: Prediction where
  "lowAt0800 = \<lparr> p_t = ''2025-06-01 08:00'', p_v = ''0.4'', p_type = ''L'' \<rparr>"

definition highAt1400 :: Prediction where
  "highAt1400 = \<lparr> p_t = ''2025-06-01 14:00'', p_v = ''10.2'', p_type = ''H'' \<rparr>"

definition lowAt2015 :: Prediction where
  "lowAt2015 = \<lparr> p_t = ''2025-06-01 20:15'', p_v = ''0.9'', p_type = ''L'' \<rparr>"

definition highAt0230 :: Prediction where
  "highAt0230 = \<lparr> p_t = ''2025-06-02 02:30'', p_v = ''11.0'', p_type = ''H'' \<rparr>"

definition lowAt0845 :: Prediction where
  "lowAt0845 = \<lparr> p_t = ''2025-06-02 08:45'', p_v = ''0.3'', p_type = ''L'' \<rparr>"

definition tideOf :: "Prediction \<Rightarrow> Tide" where
  "tideOf p = toTide hostEDT p"

definition clock :: "string \<Rightarrow> int" where
  "clock s = parseDate hostEDT s"

definition okReply :: "Prediction list \<Rightarrow> Fetched" where
  "okReply ps = Resolved \<lparr> ok = True, status = 200, json = Inr (JObject None (Inr ps)) \<rparr>"

text \<open>One morning low and one afternoon high; the same two out of order; three tides of one
  day; five tides over two days.\<close>

definition dayTides :: "Tide list" where
  "dayTides = map tideOf [lowAt0800, highAt1400]"

definition swappedTides :: "Tide list" where
  "swappedTides = map tideOf [highAt1400, lowAt0800]"

definition threeTides :: "Tide list" where
  "threeTides = map tideOf [lowAt0800, highAt1400, lowAt2015]"

definition sampleTides :: "Tide list" where
  "sampleTides = map tideOf [lowAt0800, highAt1400, lowAt2015, highAt0230, lowAt0845]"

text \<open>The state after a first, successful fetch at 07:00, and a later reply with status
  503.\<close>

definition loadedState :: State where
  "loadedState =
     fetchNOAATideData hostEDT (clock ''2025-06-01 07:00'') (okReply [lowAt0800, highAt1400])
       initialState"

definition reply503 :: Fetched where
  "reply503 = Resolved \<lparr> ok = False, status = 503, json = Inl (ErrorObject []) \<rparr>"





text \<open>Two worlds at 07:00 on 1 June: in the first the clock then advances by a second with
  every reading and a dataset is on display, in the second the clock stands still and the
  component is in its initial state.\<close>

definition tickingWorld :: World where
  "tickingWorld =
     \<lparr> component = loadedState,
       clockReadings = (\<lambda>k. clock ''2025-06-01 07:00'' + 1000 * int k),
       readsDone = 0 \<rparr>"

definition frozenWorld :: World where
  "frozenWorld =
     \<lparr> component = initialState,
       clockReadings = (\<lambda>k. clock ''2025-06-01 07:00''),
       readsDone = 0 \<rparr>"

section \<open>Auxiliary facts\<close>

subsection \<open>Lists\<close>

lemma index0_sliceLast: "index0 (sliceLast xs) = (if xs = [] then None else Some (last xs))"
proof (cases xs rule: rev_cases)
  case Nil
  then show ?thesis by (simp add: index0_def sliceLast_def)
next
  case (snoc ys y)
  then show ?thesis by (simp add: index0_def sliceLast_def)
qed

lemma find_split:
  "find P xs = Some e \<Longrightarrow> \<exists>pre post. xs = pre @ e # post \<and> P e \<and> (\<forall>u\<in>set pre. \<not> P u)"
proof (induction xs)
  case Nil
  then show ?case by simp
next
  case (Cons x xs)
  show ?case
  proof (cases "P x")
    case True
    with Cons.prems have "x = e" by simp
    with True have "x # xs = [] @ e # xs \<and> P e \<and> (\<forall>u\<in>set []. \<not> P u)" by simp
    then show ?thesis by blast
  next
    case False
    with Cons.prems have "find P xs = Some e" by simp
    then obtain pre post where "xs = pre @ e # post" "P e" "\<forall>u\<in>set pre. \<not> P u"
      using Cons.IH by blast
    with False have "x # xs = (x # pre) @ e # post \<and> P e \<and> (\<forall>u\<in>set (x # pre). \<not> P u)"
      by simp
    then show ?thesis by blast
  qed
qed

lemma find_first_of_filter: "filter P xs \<noteq> [] \<Longrightarrow> find P xs = Some (filter P xs ! 0)"
  by (induction xs) auto

text \<open>In an ascending sequence the first match is a least match.\<close>

lemma first_match_is_least:
  assumes "sorted (map f xs)" "xs = pre @ e # post" "\<forall>u\<in>set pre. \<not> P u" "u \<in> set xs" "P u"
  shows "f e \<le> f u"
proof -
  from assms(1,2) have "\<forall>w\<in>set post. f e \<le> f w"
    by (simp add: sorted_append)
  with assms(2-5) show ?thesis
    by auto
qed

subsection \<open>The examples, evaluated\<close>

lemma tideOf_lowAt0800:
  "tideOf lowAt0800 = \<lparr> Tide.time = ''08:00 AM'', date = ''6/1/2025'', height = ''0.4'',
      type = ''Low'', timestamp = 1748779200000 \<rparr>"
  by code_simp

lemma tideOf_highAt1400:
  "tideOf highAt1400 = \<lparr> Tide.time = ''02:00 PM'', date = ''6/1/2025'', height = ''10.2'',
      type = ''High'', timestamp = 1748800800000 \<rparr>"
  by code_simp

lemma tideOf_lowAt2015:
  "tideOf lowAt2015 = \<lparr> Tide.time = ''08:15 PM'', date = ''6/1/2025'', height = ''0.9'',
      type = ''Low'', timestamp = 1748823300000 \<rparr>"
  by code_simp

lemma tideOf_highAt0230:
  "tideOf highAt0230 = \<lparr> Tide.time = ''02:30 AM'', date = ''6/2/2025'', height = ''11.0'',
      type = ''High'', timestamp = 1748845800000 \<rparr>"
  by code_simp

lemma tideOf_lowAt0845:
  "tideOf lowAt0845 = \<lparr> Tide.time = ''08:45 AM'', date = ''6/2/2025'', height = ''0.3'',
      type = ''Low'', timestamp = 1748868300000 \<rparr>"
  by code_simp

lemmas tide_evals =
  tideOf_lowAt0800 tideOf_highAt1400 tideOf_lowAt2015 tideOf_highAt0230 tideOf_lowAt0845
  dayTides_def swappedTides_def threeTides_def sampleTides_def

lemma clock_0700: "clock ''2025-06-01 07:00'' = 1748775600000"
  by code_simp

lemma clock_1000: "clock ''2025-06-01 10:00'' = 1748786400000"
  by code_simp

lemma clock_2000: "clock ''2025-06-01 20:00'' = 1748822400000"
  by code_simp

lemmas clock_evals = clock_0700 clock_1000 clock_2000

section \<open>Tide direction\<close>

text \<open>
  C5. When the sequence holds no event strictly before \<open>now\<close>, or no event strictly
  after \<open>now\<close>, the classifier answers \<^verbatim>\<open>'Unknown'\<close>, whatever the order of the events.
\<close>

theorem direction_unknown_without_past_or_future:
  "\<not> (\<exists>e\<in>set tds. Tide.timestamp e < now) \<or> \<not> (\<exists>e\<in>set tds. Tide.timestamp e > now)
   \<Longrightarrow> getCurrentTideDirection tds now = ''Unknown''"
proof (elim disjE)
  assume "\<not> (\<exists>e\<in>set tds. Tide.timestamp e < now)"
  then have "filter (\<lambda>tide. Tide.timestamp tide < now) tds = []"
    by (simp add: filter_empty_conv)
  then show ?thesis
    by (simp add: getCurrentTideDirection_def index0_sliceLast Let_def)
next
  assume "\<not> (\<exists>e\<in>set tds. Tide.timestamp e > now)"
  then have "filter (\<lambda>tide. Tide.timestamp tide > now) tds = []"
    by (simp add: filter_empty_conv)
  then show ?thesis
    by (simp add: getCurrentTideDirection_def)
qed

text \<open>At 07:00 both tides of the day are still to come: no past event.\<close>

theorem direction_unknown_without_past_or_future_witness:
  "\<not> (\<exists>e\<in>set dayTides. Tide.timestamp e < clock ''2025-06-01 07:00'')
   \<and> getCurrentTideDirection dayTides (clock ''2025-06-01 07:00'') = ''Unknown''"
proof -
  have h: "\<not> (\<exists>e\<in>set dayTides. Tide.timestamp e < clock ''2025-06-01 07:00'')"
    by (simp add: tide_evals clock_evals)
  then have "\<not> (\<exists>e\<in>set dayTides. Tide.timestamp e < clock ''2025-06-01 07:00'')
      \<or> \<not> (\<exists>e\<in>set dayTides. Tide.timestamp e > clock ''2025-06-01 07:00'')"
    by (rule disjI1)
  then have "getCurrentTideDirection dayTides (clock ''2025-06-01 07:00'') = ''Unknown''"
    by (rule direction_unknown_without_past_or_future)
  with h show ?thesis
    by (rule conjI)
qed

text \<open>
  C1, as stated, fails: with one event before \<open>now\<close> and one event after it, in
  chronological order, the classifier answers \<^verbatim>\<open>'Unknown'\<close>, not \<^verbatim>\<open>'Rising'\<close>. At 10:00 the
  low of 08:00 is past and the high of 14:00 is the nearest (and only) future event.
\<close>

theorem direction_unknown_with_one_future_event:
  "sorted (map Tide.timestamp dayTides)
   \<and> tideOf lowAt0800 \<in> set dayTides
   \<and> Tide.timestamp (tideOf lowAt0800) < clock ''2025-06-01 10:00''
   \<and> tideOf highAt1400 \<in> set dayTides
   \<and> Tide.timestamp (tideOf highAt1400) > clock ''2025-06-01 10:00''
   \<and> Tide.type (tideOf highAt1400) = ''High''
   \<and> getCurrentTideDirection dayTides (clock ''2025-06-01 10:00'') = ''Unknown''"
  by (simp add: tide_evals clock_evals getCurrentTideDirection_def)

text \<open>
  C1, amended. For every chronologically ordered sequence with at least one event strictly
  before \<open>now\<close> and at least two events strictly after \<open>now\<close>, the classifier answers
  \<^verbatim>\<open>'Rising'\<close> when the nearest future event is a \<^verbatim>\<open>'High'\<close> and \<^verbatim>\<open>'Falling'\<close> otherwise (so
  also when it is a \<^verbatim>\<open>'Low'\<close>), never \<^verbatim>\<open>'Unknown'\<close>. The nearest future event \<open>n\<close> is the first
  event of the sequence after \<open>now\<close>; no future event is earlier.
\<close>

theorem direction_follows_nearest_of_two_future_events:
  assumes ordered: "sorted (map Tide.timestamp tds)"
    and past: "\<exists>e\<in>set tds. Tide.timestamp e < now"
    and future: "2 \<le> length (filter (\<lambda>e. Tide.timestamp e > now) tds)"
  shows "\<exists>n. find (\<lambda>e. Tide.timestamp e > now) tds = Some n
           \<and> (\<forall>e\<in>set tds. Tide.timestamp e > now \<longrightarrow> Tide.timestamp n \<le> Tide.timestamp e)
           \<and> getCurrentTideDirection tds now
               = (if Tide.type n = ''High'' then ''Rising'' else ''Falling'')"
proof -
  let ?F = "\<lambda>e. Tide.timestamp e > now"
  let ?n = "filter ?F tds ! 0"
  from future have ne: "filter ?F tds \<noteq> []"
    by auto
  then have found: "find ?F tds = Some ?n"
    by (rule find_first_of_filter)
  then obtain pre post where split: "tds = pre @ ?n # post" "\<forall>u\<in>set pre. \<not> ?F u"
    using find_split [of ?F tds ?n] by blast
  have least: "\<forall>e\<in>set tds. ?F e \<longrightarrow> Tide.timestamp ?n \<le> Tide.timestamp e"
    using first_match_is_least [OF ordered split] by blast
  from past have "filter (\<lambda>tide. Tide.timestamp tide < now) tds \<noteq> []"
    by (simp add: filter_empty_conv)
  with future have "getCurrentTideDirection tds now
      = (if Tide.type ?n = ''High'' then ''Rising'' else ''Falling'')"
    by (simp add: getCurrentTideDirection_def index0_sliceLast Let_def)
  with found least show ?thesis
    by blast
qed

text \<open>At 10:00, with the evening low added, two events are still to come and the nearest
  is the high of 14:00: the tide is rising.\<close>

theorem direction_follows_nearest_of_two_future_events_witness:
  "sorted (map Tide.timestamp threeTides)
   \<and> (\<exists>e\<in>set threeTides. Tide.timestamp e < clock ''2025-06-01 10:00'')
   \<and> 2 \<le> length (filter (\<lambda>e. Tide.timestamp e > clock ''2025-06-01 10:00'') threeTides)
   \<and> find (\<lambda>e. Tide.timestamp e > clock ''2025-06-01 10:00'') threeTides
       = Some (tideOf highAt1400)
   \<and> getCurrentTideDirection threeTides (clock ''2025-06-01 10:00'') = ''Rising''"
proof -
  have h1: "sorted (map Tide.timestamp threeTides)"
    by (simp add: tide_evals)
  have h2: "\<exists>e\<in>set threeTides. Tide.timestamp e < clock ''2025-06-01 10:00''"
    by (simp add: tide_evals clock_evals)
  have h3: "2 \<le> length (filter (\<lambda>e. Tide.timestamp e > clock ''2025-06-01 10:00'') threeTides)"
    by (simp add: tide_evals clock_evals)
  have f: "find (\<lambda>e. Tide.timestamp e > clock ''2025-06-01 10:00'') threeTides
       = Some (tideOf highAt1400)"
    by (simp add: tide_evals clock_evals)
  from direction_follows_nearest_of_two_future_events [OF h1 h2 h3] f
  have "getCurrentTideDirection threeTides (clock ''2025-06-01 10:00'') = ''Rising''"
    by (simp add: tideOf_highAt1400)
  with h1 h2 h3 f show ?thesis
    by simp
qed

section \<open>Auxiliary facts on the calculator\<close>

subsection \<open>Calendar arithmetic\<close>

lemma day_window:
  fixes D :: int
  assumes "0 < D" "0 \<le> lo" "hi < D"
  shows "(q * D + lo \<le> b \<and> b \<le> q * D + hi) \<longleftrightarrow> (b div D = q \<and> lo \<le> b mod D \<and> b mod D \<le> hi)"
proof
  assume A: "q * D + lo \<le> b \<and> b \<le> q * D + hi"
  define r where "r = b - q * D"
  have r: "0 \<le> r" "r < D" "lo \<le> r" "r \<le> hi"
    using A assms by (auto simp: r_def)
  have b: "b = r + q * D"
    by (simp add: r_def)
  have "b div D = q" "b mod D = r"
    unfolding b using r assms by simp_all
  with r show "b div D = q \<and> lo \<le> b mod D \<and> b mod D \<le> hi"
    by simp
next
  assume B: "b div D = q \<and> lo \<le> b mod D \<and> b mod D \<le> hi"
  have "b = (b div D) * D + b mod D"
    by simp
  with B show "q * D + lo \<le> b \<and> b \<le> q * D + hi"
    by auto
qed

text \<open>The two bounds of the window in terms of the local day.\<close>

lemma setHours_0600:
  "setHours env 6 0 x
     = (x + offsetAtUTC env x) div msPerDay * msPerDay + at0600
         - offsetAtLocal env ((x + offsetAtUTC env x) div msPerDay * msPerDay + at0600)"
  by (simp add: setHours_def Let_def at0600_def)

lemma setHours_1930:
  "setHours env 19 30 x
     = (x + offsetAtUTC env x) div msPerDay * msPerDay + at1930
         - offsetAtLocal env ((x + offsetAtUTC env x) div msPerDay * msPerDay + at1930)"
  by (simp add: setHours_def Let_def at1930_def)

lemma steady_same_day:
  assumes steady: "steadyDaylightOffset env"
    and lo: "setHours env 6 0 x \<le> c" and hi: "c \<le> setHours env 19 30 x"
  shows "(c + offsetAtUTC env c) div msPerDay = (x + offsetAtUTC env x) div msPerDay"
proof -
  define d where "d = (x + offsetAtUTC env x) div msPerDay"
  define off where "off = offsetAtLocal env (d * msPerDay + at0600)"
  from steady have same: "offsetAtLocal env (d * msPerDay + at1930) = off"
    by (simp add: steadyDaylightOffset_def off_def)
  from lo have l: "d * msPerDay + at0600 \<le> c + off"
    by (simp add: setHours_0600 d_def off_def)
  from hi same have h: "c + off \<le> d * msPerDay + at1930"
    by (simp add: setHours_1930 d_def)
  from steady l h have "offsetAtUTC env c = off"
    unfolding steadyDaylightOffset_def off_def by blast
  with l h have "d * msPerDay + at0600 \<le> c + offsetAtUTC env c
      \<and> c + offsetAtUTC env c \<le> d * msPerDay + at1930"
    by simp
  then have "(c + offsetAtUTC env c) div msPerDay = d"
    using day_window [of msPerDay at0600 at1930 d "c + offsetAtUTC env c"]
    by (simp add: msPerDay_def at0600_def at1930_def)
  then show ?thesis
    by (simp add: d_def)
qed

lemma steady_own_date:
  assumes "steadyDaylightOffset env"
    and "setHours env 6 0 x \<le> c" and "c \<le> setHours env 19 30 x"
  shows "spec_daylightOnOwnDate env c"
proof -
  from assms have "(c + offsetAtUTC env c) div msPerDay = (x + offsetAtUTC env x) div msPerDay"
    by (rule steady_same_day)
  then have "setHours env 6 0 c = setHours env 6 0 x" "setHours env 19 30 c = setHours env 19 30 x"
    by (simp_all add: setHours_def Let_def)
  with assms(2,3) show ?thesis
    by (simp add: spec_daylightOnOwnDate_def)
qed


lemma programAccepts_own_date:
  "steadyDaylightOffset env \<Longrightarrow> programAccepts env now e \<Longrightarrow>
   spec_daylightOnOwnDate env (thunderHoleTimeOf e)"
  using steady_own_date [of env now "thunderHoleTimeOf e"]
  by (simp add: programAccepts_def accepted_def)

subsection \<open>The loop\<close>

lemma tideLoop_none_iff:
  "tideLoop env now sr ss tds = None \<longleftrightarrow> (\<forall>e\<in>set tds. \<not> accepted now sr ss (thunderHoleTimeOf e))"
  by (induction tds) simp_all

lemma tideLoop_first:
  "\<forall>u\<in>set pre. \<not> accepted now sr ss (thunderHoleTimeOf u) \<Longrightarrow>
   accepted now sr ss (thunderHoleTimeOf e) \<Longrightarrow>
   tideLoop env now sr ss (pre @ e # post) = Some (resultFor env now e)"
  by (induction pre) simp_all

lemma tideLoop_some:
  "tideLoop env now sr ss tds = Some r \<Longrightarrow>
   \<exists>pre e post. tds = pre @ e # post
      \<and> (\<forall>u\<in>set pre. \<not> accepted now sr ss (thunderHoleTimeOf u))
      \<and> accepted now sr ss (thunderHoleTimeOf e) \<and> r = resultFor env now e"
proof (induction tds)
  case Nil
  then show ?case by simp
next
  case (Cons x xs)
  show ?case
  proof (cases "accepted now sr ss (thunderHoleTimeOf x)")
    case True
    with Cons.prems have "r = resultFor env now x" by simp
    with True have "x # xs = [] @ x # xs
        \<and> (\<forall>u\<in>set []. \<not> accepted now sr ss (thunderHoleTimeOf u))
        \<and> accepted now sr ss (thunderHoleTimeOf x) \<and> r = resultFor env now x"
      by simp
    then show ?thesis by blast
  next
    case False
    with Cons.prems have "tideLoop env now sr ss xs = Some r" by simp
    then obtain pre e post where E: "xs = pre @ e # post"
        "\<forall>u\<in>set pre. \<not> accepted now sr ss (thunderHoleTimeOf u)"
        "accepted now sr ss (thunderHoleTimeOf e)" "r = resultFor env now e"
      using Cons.IH by blast
    with False have "x # xs = (x # pre) @ e # post
        \<and> (\<forall>u\<in>set (x # pre). \<not> accepted now sr ss (thunderHoleTimeOf u))
        \<and> accepted now sr ss (thunderHoleTimeOf e) \<and> r = resultFor env now e"
      by simp
    then show ?thesis by blast
  qed
qed




lemma calculate_some:
  assumes "calculateThunderHoleTime env now tds = Some r"
  shows "\<exists>pre e post. tds = pre @ e # post
      \<and> (\<forall>u\<in>set pre. \<not> programAccepts env now u)
      \<and> programAccepts env now e \<and> r = resultFor env now e"
  using assms tideLoop_some [of env now "setHours env 6 0 now" "setHours env 19 30 now" tds r]
  by (simp add: calculateThunderHoleTime_def Let_def programAccepts_def)

lemma calculate_cons_skip:
  "\<not> programAccepts env now e \<Longrightarrow>
   calculateThunderHoleTime env now (e # rest) = calculateThunderHoleTime env now rest"
  by (simp add: calculateThunderHoleTime_def Let_def programAccepts_def)

text \<open>The calculator with its clock readings computes what the function of the first
  reading computes, and changes nothing of the world but the count of readings.\<close>

lemma tideLoop_run_result:
  "fst (tideLoop_run env now sr ss tds w) = tideLoop env now sr ss tds"
  by (induction tds arbitrary: w)
     (simp_all add: newDate_def resultFor_def thunderHoleTimeOf_def Let_def)

lemma tideLoop_run_world:
  "\<exists>k. snd (tideLoop_run env now sr ss tds w) = w\<lparr> readsDone := readsDone w + k \<rparr>"
proof (induction tds arbitrary: w)
  case Nil
  have "snd (tideLoop_run env now sr ss [] w) = w\<lparr> readsDone := readsDone w + 0 \<rparr>"
    by simp
  then show ?case by blast
next
  case (Cons x xs)
  let ?w1 = "w\<lparr> readsDone := Suc (readsDone w) \<rparr>"
  from Cons.IH [of ?w1] obtain k where
    k: "snd (tideLoop_run env now sr ss xs ?w1) = ?w1\<lparr> readsDone := readsDone ?w1 + k \<rparr>"
    by blast
  show ?case
  proof (cases "accepted now sr ss (thunderHoleTimeOf x)")
    case True
    then have "snd (tideLoop_run env now sr ss (x # xs) w) = w\<lparr> readsDone := readsDone w + 1 \<rparr>"
      by (simp add: newDate_def thunderHoleTimeOf_def Let_def)
    then show ?thesis by blast
  next
    case False
    with k have "snd (tideLoop_run env now sr ss (x # xs) w)
        = w\<lparr> readsDone := readsDone w + (k + 1) \<rparr>"
      by (simp add: newDate_def thunderHoleTimeOf_def Let_def)
    then show ?thesis by blast
  qed
qed

lemma calculate_run_result:
  "fst (calculateThunderHoleTime_run env tds w)
     = calculateThunderHoleTime env (clockReadings w (readsDone w)) tds"
  by (simp add: calculateThunderHoleTime_run_def calculateThunderHoleTime_def newDate_def
      Let_def tideLoop_run_result)

lemma calculate_run_world:
  "\<exists>k. snd (calculateThunderHoleTime_run env tds w) = w\<lparr> readsDone := readsDone w + k \<rparr>"
proof -
  let ?w1 = "w\<lparr> readsDone := Suc (readsDone w) \<rparr>"
  let ?now = "clockReadings w (readsDone w)"
  obtain k where "snd (tideLoop_run env ?now (setHours env 6 0 ?now) (setHours env 19 30 ?now) tds ?w1)
      = ?w1\<lparr> readsDone := readsDone ?w1 + k \<rparr>"
    using tideLoop_run_world by blast
  then have "snd (calculateThunderHoleTime_run env tds w) = w\<lparr> readsDone := readsDone w + (k + 1) \<rparr>"
    by (simp add: calculateThunderHoleTime_run_def newDate_def Let_def)
  then show ?thesis by blast
qed

subsection \<open>More evaluated examples\<close>

lemma offsetAtUTC_hostEDT: "offsetAtUTC hostEDT x = - 14400000"
  by (simp add: hostEDT_def)

lemma offsetAtLocal_hostEDT: "offsetAtLocal hostEDT t = - 14400000"
  by (simp add: hostEDT_def)

lemma steady_hostEDT: "steadyDaylightOffset hostEDT"
  by (simp add: steadyDaylightOffset_def offsetAtUTC_hostEDT offsetAtLocal_hostEDT)





lemma time_1000: "toLocaleTimeString hostEDT 1748786400000 = ''10:00 AM''"
  by code_simp

lemma date_1000: "toLocaleDateString hostEDT 1748786400000 = ''6/1/2025''"
  by code_simp




lemmas calc_evals =
  calculateThunderHoleTime_def accepted_def setHours_def thunderHoleTimeOf_def
  offsetAtUTC_hostEDT offsetAtLocal_hostEDT msPerDay_def Let_def

lemmas day_evals =
  programAccepts_def accepted_def spec_daylightOnOwnDate_def setHours_def thunderHoleTimeOf_def
  offsetAtUTC_hostEDT offsetAtLocal_hostEDT msPerDay_def Let_def


lemma toTide_hostEDT: "toTide hostEDT p = tideOf p"
  by (simp add: tideOf_def)

lemma loadedState_eval:
  "loadedState = \<lparr> tideData = Some (makeTideData dayTides (clock ''2025-06-01 07:00'')),
                    loading = False, error = None \<rparr>"
  by (simp add: loadedState_def okReply_def initialState_def fetchNOAATideData_def tryFetch_def
      Let_def dayTides_def toTide_hostEDT)

lemma tickingWorld_first: "clockReadings tickingWorld (readsDone tickingWorld) = clock ''2025-06-01 07:00''"
  by (simp add: tickingWorld_def)

lemma frozenWorld_reading: "clockReadings frozenWorld k = clock ''2025-06-01 07:00''"
  by (simp add: frozenWorld_def)

section \<open>Optimal viewing time\<close>






text \<open>
  C6. With a low at 08:00 and a high at 14:00 of the current day and \<open>now\<close> at 07:00, the
  calculator returns the optimal time 10:00 of that day (low plus two hours), three hours
  from \<open>now\<close>, whose related event is the low of 08:00. \<open>midnight\<close> is the local midnight
  of any day \<open>d\<close>, on any host where the offset \<open>off\<close> in force at 07:00 is the one that
  applies at 06:00 and at 19:30 of that day.
\<close>

theorem calculate_low_0800_high_1400_at_0700:
  assumes "Tide.type lo = ''Low''" and "Tide.type hi = ''High''"
    and "Tide.timestamp lo = midnight + 8 * 60 * 60 * 1000"
    and "Tide.timestamp hi = midnight + 14 * 60 * 60 * 1000"
    and "now = midnight + 7 * 60 * 60 * 1000"
    and "midnight = d * msPerDay - off"
    and "offsetAtUTC env now = off"
    and "offsetAtLocal env (d * msPerDay + at0600) = off"
    and "offsetAtLocal env (d * msPerDay + at1930) = off"
  shows "calculateThunderHoleTime env now [lo, hi]
    = Some \<lparr> ThunderHoleTime.time = toLocaleTimeString env (midnight + 10 * 60 * 60 * 1000),
             ThunderHoleTime.date = toLocaleDateString env (midnight + 10 * 60 * 60 * 1000),
             relatedTide = lo,
             ThunderHoleTime.timestamp = midnight + 10 * 60 * 60 * 1000,
             hoursFromNow = 3 \<rparr>"
proof -
  have c: "thunderHoleTimeOf lo = midnight + 10 * 60 * 60 * 1000"
    using assms(1,3) by (simp add: thunderHoleTimeOf_def)
  have day: "(now + offsetAtUTC env now) div msPerDay = d"
    using assms(5,6,7) by (simp add: msPerDay_def)
  have "setHours env 6 0 now = midnight + 6 * 60 * 60 * 1000"
    using assms(6,8) by (simp add: setHours_0600 day at0600_def)
  moreover have "setHours env 19 30 now = midnight + 19 * 60 * 60 * 1000 + 30 * 60 * 1000"
    using assms(6,9) by (simp add: setHours_1930 day at1930_def)
  ultimately have "accepted now (setHours env 6 0 now) (setHours env 19 30 now) (thunderHoleTimeOf lo)"
    using c assms(5) by (simp add: accepted_def)
  then have "calculateThunderHoleTime env now [lo, hi] = Some (resultFor env now lo)"
    by (simp add: calculateThunderHoleTime_def Let_def)
  also have "resultFor env now lo = \<lparr> ThunderHoleTime.time = toLocaleTimeString env (midnight + 10 * 60 * 60 * 1000),
             ThunderHoleTime.date = toLocaleDateString env (midnight + 10 * 60 * 60 * 1000),
             relatedTide = lo,
             ThunderHoleTime.timestamp = midnight + 10 * 60 * 60 * 1000,
             hoursFromNow = 3 \<rparr>"
    using c assms(5) by (simp add: resultFor_def Let_def)
  finally show ?thesis .
qed

theorem calculate_low_0800_high_1400_at_0700_witness:
  "calculateThunderHoleTime hostEDT (clock ''2025-06-01 07:00'') dayTides
     = Some \<lparr> ThunderHoleTime.time = ''10:00 AM'', ThunderHoleTime.date = ''6/1/2025'',
              relatedTide = tideOf lowAt0800,
              ThunderHoleTime.timestamp = clock ''2025-06-01 10:00'',
              hoursFromNow = 3 \<rparr>"
proof -
  have "calculateThunderHoleTime hostEDT (clock ''2025-06-01 07:00'') [tideOf lowAt0800, tideOf highAt1400]
    = Some \<lparr> ThunderHoleTime.time = toLocaleTimeString hostEDT (1748750400000 + 10 * 60 * 60 * 1000),
             ThunderHoleTime.date = toLocaleDateString hostEDT (1748750400000 + 10 * 60 * 60 * 1000),
             relatedTide = tideOf lowAt0800,
             ThunderHoleTime.timestamp = 1748750400000 + 10 * 60 * 60 * 1000,
             hoursFromNow = 3 \<rparr>"
    by (rule calculate_low_0800_high_1400_at_0700 [where d = 20240 and off = "- 14400000"])
       (simp_all add: tide_evals clock_evals offsetAtUTC_hostEDT offsetAtLocal_hostEDT msPerDay_def)
  then show ?thesis
    by (simp add: dayTides_def clock_evals time_1000 date_1000)
qed

text \<open>
  C7. The calculator is a total function into an option type; no branch of it raises.
  An event whose candidate lies outside the daylight window is skipped and the scan goes on
  with the next event, both for the window as the program computes it (first conjunct)
  and, on a host whose offset is steady during daylight, for the window on the candidate's
  own date (second conjunct). When no event of the sequence is accepted the result is
  absent, and every result that is present is built from an event of the sequence: nothing
  is extrapolated. After any number of skipped events the first accepted event is the one
  returned (last conjunct).
\<close>

theorem calculate_skips_and_reports_absence:
  "(\<not> (thunderHoleTimeOf e \<ge> setHours env 6 0 now \<and> thunderHoleTimeOf e \<le> setHours env 19 30 now)
      \<longrightarrow> calculateThunderHoleTime env now (e # rest) = calculateThunderHoleTime env now rest)
   \<and> (steadyDaylightOffset env \<and> \<not> spec_daylightOnOwnDate env (thunderHoleTimeOf e)
      \<longrightarrow> calculateThunderHoleTime env now (e # rest) = calculateThunderHoleTime env now rest)
   \<and> ((\<forall>u\<in>set tds. \<not> accepted now (setHours env 6 0 now) (setHours env 19 30 now)
                        (thunderHoleTimeOf u))
      \<longrightarrow> calculateThunderHoleTime env now tds = None)
   \<and> (calculateThunderHoleTime env now tds = None
        \<or> (\<exists>u\<in>set tds. calculateThunderHoleTime env now tds = Some (resultFor env now u)))
   \<and> ((\<forall>u\<in>set skipped. \<not> accepted now (setHours env 6 0 now) (setHours env 19 30 now)
                            (thunderHoleTimeOf u))
        \<and> accepted now (setHours env 6 0 now) (setHours env 19 30 now) (thunderHoleTimeOf e')
      \<longrightarrow> calculateThunderHoleTime env now (skipped @ e' # later) = Some (resultFor env now e'))"
proof (intro conjI impI)
  assume "\<not> (thunderHoleTimeOf e \<ge> setHours env 6 0 now \<and> thunderHoleTimeOf e \<le> setHours env 19 30 now)"
  then show "calculateThunderHoleTime env now (e # rest) = calculateThunderHoleTime env now rest"
    by (auto simp add: calculateThunderHoleTime_def Let_def accepted_def)
next
  assume "steadyDaylightOffset env \<and> \<not> spec_daylightOnOwnDate env (thunderHoleTimeOf e)"
  then have "\<not> programAccepts env now e"
    using programAccepts_own_date by blast
  then show "calculateThunderHoleTime env now (e # rest) = calculateThunderHoleTime env now rest"
    by (rule calculate_cons_skip)
next
  assume "\<forall>u\<in>set tds. \<not> accepted now (setHours env 6 0 now) (setHours env 19 30 now)
                        (thunderHoleTimeOf u)"
  then show "calculateThunderHoleTime env now tds = None"
    by (simp add: calculateThunderHoleTime_def Let_def tideLoop_none_iff)
next
  show "calculateThunderHoleTime env now tds = None
        \<or> (\<exists>u\<in>set tds. calculateThunderHoleTime env now tds = Some (resultFor env now u))"
  proof (cases "calculateThunderHoleTime env now tds")
    case None
    then show ?thesis by simp
  next
    case (Some r)
    then obtain pre u post where "tds = pre @ u # post" "r = resultFor env now u"
      using calculate_some by blast
    with Some show ?thesis by auto
  qed
next
  assume "(\<forall>u\<in>set skipped. \<not> accepted now (setHours env 6 0 now) (setHours env 19 30 now)
                            (thunderHoleTimeOf u))
        \<and> accepted now (setHours env 6 0 now) (setHours env 19 30 now) (thunderHoleTimeOf e')"
  then show "calculateThunderHoleTime env now (skipped @ e' # later) = Some (resultFor env now e')"
    by (simp add: calculateThunderHoleTime_def Let_def tideLoop_first)
qed

theorem calculate_skips_and_reports_absence_witness:
  "steadyDaylightOffset hostEDT
   \<and> \<not> spec_daylightOnOwnDate hostEDT (thunderHoleTimeOf (tideOf lowAt2015))
   \<and> calculateThunderHoleTime hostEDT (clock ''2025-06-01 07:00'') (tideOf lowAt2015 # dayTides)
       = calculateThunderHoleTime hostEDT (clock ''2025-06-01 07:00'') dayTides
   \<and> calculateThunderHoleTime hostEDT (clock ''2025-06-01 07:00'') (tideOf lowAt2015 # dayTides)
       = Some (resultFor hostEDT (clock ''2025-06-01 07:00'') (tideOf lowAt0800))
   \<and> calculateThunderHoleTime hostEDT (clock ''2025-06-01 20:00'') sampleTides = None"
proof -
  let ?sr = "setHours hostEDT 6 0 (clock ''2025-06-01 07:00'')"
  let ?ss = "setHours hostEDT 19 30 (clock ''2025-06-01 07:00'')"
  have n: "\<not> spec_daylightOnOwnDate hostEDT (thunderHoleTimeOf (tideOf lowAt2015))"
    by (simp add: tide_evals day_evals)
  have a: "\<forall>u\<in>set sampleTides.
      \<not> accepted (clock ''2025-06-01 20:00'') (setHours hostEDT 6 0 (clock ''2025-06-01 20:00''))
           (setHours hostEDT 19 30 (clock ''2025-06-01 20:00'')) (thunderHoleTimeOf u)"
    by (simp add: tide_evals clock_evals calc_evals)
  have s: "\<forall>u\<in>set [tideOf lowAt2015].
      \<not> accepted (clock ''2025-06-01 07:00'') ?sr ?ss (thunderHoleTimeOf u)"
    by (simp add: tide_evals clock_evals calc_evals)
  have t: "accepted (clock ''2025-06-01 07:00'') ?sr ?ss (thunderHoleTimeOf (tideOf lowAt0800))"
    by (simp add: tide_evals clock_evals calc_evals)
  have l: "[tideOf lowAt2015] @ tideOf lowAt0800 # [tideOf highAt1400] = tideOf lowAt2015 # dayTides"
    by (simp add: dayTides_def)
  from n steady_hostEDT
    calculate_skips_and_reports_absence [where e = "tideOf lowAt2015" and env = hostEDT and now = "clock ''2025-06-01 07:00''"
          and rest = dayTides]
  have skip: "calculateThunderHoleTime hostEDT (clock ''2025-06-01 07:00'') (tideOf lowAt2015 # dayTides)
       = calculateThunderHoleTime hostEDT (clock ''2025-06-01 07:00'') dayTides"
    by blast
  from s t
    calculate_skips_and_reports_absence [where env = hostEDT and now = "clock ''2025-06-01 07:00''"
          and skipped = "[tideOf lowAt2015]" and e' = "tideOf lowAt0800"
          and later = "[tideOf highAt1400]"]
  have later: "calculateThunderHoleTime hostEDT (clock ''2025-06-01 07:00'') (tideOf lowAt2015 # dayTides)
       = Some (resultFor hostEDT (clock ''2025-06-01 07:00'') (tideOf lowAt0800))"
    unfolding l by blast
  from a calculate_skips_and_reports_absence [where env = hostEDT and now = "clock ''2025-06-01 20:00''" and tds = sampleTides]
  have none: "calculateThunderHoleTime hostEDT (clock ''2025-06-01 20:00'') sampleTides = None"
    by blast
  from steady_hostEDT n skip later none show ?thesis
    by simp
qed

text \<open>
  C8. The calculator takes one clock reading on line 108 and one more in every round of the
  loop. Two invocations on the same sequence whose first readings agree give identical
  results, whatever the later readings and whatever the state of the component; this
  covers a second invocation in the world the first one leaves behind. An invocation
  leaves the state cells of the component and the clock as they were, and only takes
  readings. Its result is the value of the function \<open>calculateThunderHoleTime\<close> at the
  first reading.
\<close>

theorem calculate_twice_same_result_no_effect:
  "(clockReadings w (readsDone w) = clockReadings w' (readsDone w') \<longrightarrow>
      fst (calculateThunderHoleTime_run env tds w) = fst (calculateThunderHoleTime_run env tds w'))
   \<and> component (snd (calculateThunderHoleTime_run env tds w)) = component w
   \<and> clockReadings (snd (calculateThunderHoleTime_run env tds w)) = clockReadings w
   \<and> readsDone (snd (calculateThunderHoleTime_run env tds w)) \<ge> readsDone w
   \<and> fst (calculateThunderHoleTime_run env tds w)
       = calculateThunderHoleTime env (clockReadings w (readsDone w)) tds"
proof -
  obtain k where k: "snd (calculateThunderHoleTime_run env tds w) = w\<lparr> readsDone := readsDone w + k \<rparr>"
    using calculate_run_world by blast
  have "fst (calculateThunderHoleTime_run env tds w) = fst (calculateThunderHoleTime_run env tds w')"
    if "clockReadings w (readsDone w) = clockReadings w' (readsDone w')"
    using that by (simp add: calculate_run_result)
  moreover from k have "component (snd (calculateThunderHoleTime_run env tds w)) = component w"
    "clockReadings (snd (calculateThunderHoleTime_run env tds w)) = clockReadings w"
    "readsDone (snd (calculateThunderHoleTime_run env tds w)) \<ge> readsDone w"
    by simp_all
  ultimately show ?thesis
    by (simp add: calculate_run_result)
qed

text \<open>Two worlds that agree on the first reading and on nothing else.\<close>

theorem calculate_twice_same_result_no_effect_witness:
  "clockReadings tickingWorld (readsDone tickingWorld)
     = clockReadings frozenWorld (readsDone frozenWorld)
   \<and> clockReadings tickingWorld 1 \<noteq> clockReadings frozenWorld 1
   \<and> component tickingWorld \<noteq> component frozenWorld
   \<and> fst (calculateThunderHoleTime_run hostEDT dayTides tickingWorld)
       = fst (calculateThunderHoleTime_run hostEDT dayTides frozenWorld)
   \<and> fst (calculateThunderHoleTime_run hostEDT dayTides
            (snd (calculateThunderHoleTime_run hostEDT dayTides frozenWorld)))
       = fst (calculateThunderHoleTime_run hostEDT dayTides frozenWorld)
   \<and> fst (calculateThunderHoleTime_run hostEDT dayTides frozenWorld)
       = Some (resultFor hostEDT (clock ''2025-06-01 07:00'') (tideOf lowAt0800))
   \<and> component (snd (calculateThunderHoleTime_run hostEDT dayTides tickingWorld)) = loadedState"
proof -
  let ?run = "calculateThunderHoleTime_run hostEDT dayTides"
  note inst = calculate_twice_same_result_no_effect [where env = hostEDT and tds = dayTides]
  have first: "clockReadings tickingWorld (readsDone tickingWorld)
     = clockReadings frozenWorld (readsDone frozenWorld)"
    by (simp add: tickingWorld_first frozenWorld_reading)
  have later: "clockReadings tickingWorld 1 \<noteq> clockReadings frozenWorld 1"
    by (simp add: tickingWorld_def frozenWorld_def)
  have comp: "component tickingWorld \<noteq> component frozenWorld"
    by (simp add: tickingWorld_def frozenWorld_def loadedState_eval initialState_def)
  from first inst [where w = tickingWorld and w' = frozenWorld]
  have same: "fst (?run tickingWorld) = fst (?run frozenWorld)"
    by blast
  from inst [where w = frozenWorld and w' = frozenWorld]
  have "clockReadings (snd (?run frozenWorld)) = clockReadings frozenWorld"
    by blast
  then have "clockReadings frozenWorld (readsDone frozenWorld)
      = clockReadings (snd (?run frozenWorld)) (readsDone (snd (?run frozenWorld)))"
    by (simp add: frozenWorld_reading)
  with inst [where w = frozenWorld and w' = "snd (?run frozenWorld)"]
  have twice: "fst (?run (snd (?run frozenWorld))) = fst (?run frozenWorld)"
    by simp
  from inst [where w = frozenWorld and w' = frozenWorld]
  have "fst (?run frozenWorld)
      = calculateThunderHoleTime hostEDT (clockReadings frozenWorld (readsDone frozenWorld)) dayTides"
    by blast
  also have "\<dots> = Some (resultFor hostEDT (clock ''2025-06-01 07:00'') (tideOf lowAt0800))"
    by (simp add: frozenWorld_reading tide_evals clock_evals calc_evals)
  finally have val: "fst (?run frozenWorld)
      = Some (resultFor hostEDT (clock ''2025-06-01 07:00'') (tideOf lowAt0800))" .
  from inst [where w = tickingWorld and w' = frozenWorld]
  have "component (snd (?run tickingWorld)) = component tickingWorld"
    by blast
  then have frame: "component (snd (?run tickingWorld)) = loadedState"
    by (simp add: tickingWorld_def)
  from first later comp same twice val frame show ?thesis
    by simp
qed

section \<open>Fetch and normalise adapter\<close>

lemma fetch_failed:
  "tryFetch env now fetched = Inl err \<Longrightarrow>
   fetchNOAATideData env now fetched s = s\<lparr> error := Some (catchMessage err), loading := False \<rparr>"
  by (simp add: fetchNOAATideData_def Let_def)

lemma fetch_succeeded:
  "tryFetch env now fetched = Inr d \<Longrightarrow>
   fetchNOAATideData env now fetched s = s\<lparr> tideData := Some d, error := None, loading := False \<rparr>"
  by (simp add: fetchNOAATideData_def Let_def)

lemma tryFetch_predictions:
  "ok response \<Longrightarrow> json response = Inr (JObject None (Inr predictions)) \<Longrightarrow>
   tryFetch env now (Resolved response) = Inr (makeTideData (map (toTide env) predictions) now)"
  by (simp add: tryFetch_def)

lemma tides_makeTideData: "tides (makeTideData tds now) = tds"
  by (simp add: makeTideData_def Let_def)

lemma nextTide_makeTideData:
  "nextTide (makeTideData tds now)
     = (case find (\<lambda>tide. Tide.timestamp tide > now) tds of
          Some tide \<Rightarrow> Some tide | None \<Rightarrow> index0 tds)"
  by (simp add: makeTideData_def Let_def)

lemma timestamp_toTide: "Tide.timestamp (toTide env p) = parseDate env (p_t p)"
  by (simp add: toTide_def)

lemma showNat_503: "showNat 503 = ''503''"
  by code_simp

text \<open>
  C9. A fetch that fails, that is, whose \<^verbatim>\<open>try\<close> block throws, leaves the dataset of
  the prior state as it was: the new state is the prior state with the error message set
  and the loading flag cleared. A reply with a non-success status, a reply carrying a
  structured error payload and a reply whose body fails to parse each make the
  \<^verbatim>\<open>try\<close> block throw.
\<close>

theorem failed_fetch_keeps_dataset:
  "(tryFetch env now fetched = Inl err \<longrightarrow>
      fetchNOAATideData env now fetched s = s\<lparr> error := Some (catchMessage err), loading := False \<rparr>
      \<and> tideData (fetchNOAATideData env now fetched s) = tideData s)
   \<and> (\<not> ok response \<longrightarrow>
        tryFetch env now (Resolved response)
          = Inl (ErrorObject (''NOAA API error: '' @ showNat (status response))))
   \<and> (ok response \<and> json response = Inr (JObject (Some msg) ps) \<longrightarrow>
        tryFetch env now (Resolved response) = Inl (ErrorObject msg))
   \<and> (ok response \<and> json response = Inl thrown \<longrightarrow>
        tryFetch env now (Resolved response) = Inl thrown)"
proof (intro conjI impI)
  assume f: "tryFetch env now fetched = Inl err"
  then show "fetchNOAATideData env now fetched s
      = s\<lparr> error := Some (catchMessage err), loading := False \<rparr>"
    by (rule fetch_failed)
  then show "tideData (fetchNOAATideData env now fetched s) = tideData s"
    by simp
next
  assume "\<not> ok response"
  then show "tryFetch env now (Resolved response)
      = Inl (ErrorObject (''NOAA API error: '' @ showNat (status response)))"
    by (simp add: tryFetch_def)
next
  assume "ok response \<and> json response = Inr (JObject (Some msg) ps)"
  then show "tryFetch env now (Resolved response) = Inl (ErrorObject msg)"
    by (simp add: tryFetch_def)
next
  assume "ok response \<and> json response = Inl thrown"
  then show "tryFetch env now (Resolved response) = Inl thrown"
    by (simp add: tryFetch_def)
qed

text \<open>A dataset is on display; a reply with status 503 arrives three hours later.\<close>

theorem failed_fetch_keeps_dataset_witness:
  "tideData loadedState = Some (makeTideData dayTides (clock ''2025-06-01 07:00''))
   \<and> fetchNOAATideData hostEDT (clock ''2025-06-01 10:00'') reply503 loadedState
       = loadedState\<lparr> error := Some ''Failed to fetch tide data: NOAA API error: 503'',
                       loading := False \<rparr>
   \<and> tideData (fetchNOAATideData hostEDT (clock ''2025-06-01 10:00'') reply503 loadedState)
       = tideData loadedState"
proof -
  let ?r = "\<lparr> ok = False, status = 503, json = Inl (ErrorObject []) \<rparr>"
  have n: "\<not> ok ?r"
    by simp
  with failed_fetch_keeps_dataset [where env = hostEDT and now = "clock ''2025-06-01 10:00''" and response = ?r]
  have t: "tryFetch hostEDT (clock ''2025-06-01 10:00'') reply503
      = Inl (ErrorObject (''NOAA API error: '' @ showNat 503))"
    by (simp add: reply503_def)
  with failed_fetch_keeps_dataset [where env = hostEDT and now = "clock ''2025-06-01 10:00''" and fetched = reply503
        and s = loadedState and err = "ErrorObject (''NOAA API error: '' @ showNat 503)"]
  show ?thesis
    by (simp add: catchMessage_def showNat_503 loadedState_eval)
qed

text \<open>
  C3, as stated, fails: the adapter maps the records one by one and never sorts. Two
  records arriving with the later one first give a dataset whose events are not ascending.
\<close>

theorem fetch_of_unordered_records_is_unordered:
  "tideData (fetchNOAATideData hostEDT (clock ''2025-06-01 07:00'')
        (okReply [highAt1400, lowAt0800]) initialState)
     = Some (makeTideData swappedTides (clock ''2025-06-01 07:00''))
   \<and> tides (makeTideData swappedTides (clock ''2025-06-01 07:00'')) = swappedTides
   \<and> map Tide.timestamp swappedTides = [1748800800000, 1748779200000]
   \<and> \<not> sorted (map Tide.timestamp swappedTides)"
  by (simp add: okReply_def initialState_def fetchNOAATideData_def tryFetch_def Let_def
      tides_makeTideData toTide_hostEDT tide_evals)

text \<open>
  C3, amended. For every sequence of raw prediction records of a successful reply, the
  event sequence of the dataset has one event per record, in the order of arrival, each
  with the parsed timestamp of its record; so it is ascending by timestamp exactly when the
  records arrive in ascending order of their timestamps. The adapter relies on the order
  of the service and does not establish it.
\<close>

theorem fetch_keeps_arrival_order:
  assumes "ok response" and "json response = Inr (JObject None (Inr predictions))"
  shows "\<exists>d. tideData (fetchNOAATideData env now (Resolved response) s) = Some d
      \<and> tides d = map (toTide env) predictions
      \<and> map Tide.timestamp (tides d) = map (\<lambda>p. parseDate env (p_t p)) predictions
      \<and> (sorted (map Tide.timestamp (tides d))
           \<longleftrightarrow> sorted (map (\<lambda>p. parseDate env (p_t p)) predictions))"
proof -
  let ?d = "makeTideData (map (toTide env) predictions) now"
  from assms have "tryFetch env now (Resolved response) = Inr ?d"
    by (rule tryFetch_predictions)
  then have a: "tideData (fetchNOAATideData env now (Resolved response) s) = Some ?d"
    by (simp add: fetch_succeeded)
  have b: "tides ?d = map (toTide env) predictions"
    by (rule tides_makeTideData)
  then have c: "map Tide.timestamp (tides ?d) = map (\<lambda>p. parseDate env (p_t p)) predictions"
    by (simp add: timestamp_toTide)
  then have "sorted (map Tide.timestamp (tides ?d))
      \<longleftrightarrow> sorted (map (\<lambda>p. parseDate env (p_t p)) predictions)"
    by (simp only:)
  with a b c show ?thesis
    by blast
qed

theorem fetch_keeps_arrival_order_witness:
  "tideData (fetchNOAATideData hostEDT (clock ''2025-06-01 07:00'')
        (okReply [lowAt0800, highAt1400]) initialState)
     = Some (makeTideData dayTides (clock ''2025-06-01 07:00''))
   \<and> map (\<lambda>p. parseDate hostEDT (p_t p)) [lowAt0800, highAt1400]
       = [1748779200000, 1748800800000]
   \<and> sorted (map Tide.timestamp dayTides)"
proof -
  let ?r = "\<lparr> ok = True, status = 200, json = Inr (JObject None (Inr [lowAt0800, highAt1400])) \<rparr>"
  have d: "map (toTide hostEDT) [lowAt0800, highAt1400] = dayTides"
    by (simp add: dayTides_def toTide_hostEDT)
  have "ok ?r" and "json ?r = Inr (JObject None (Inr [lowAt0800, highAt1400]))"
    by simp_all
  from fetch_keeps_arrival_order [OF this, where env = hostEDT and now = "clock ''2025-06-01 07:00''"
      and s = initialState]
  obtain d' where "tideData (fetchNOAATideData hostEDT (clock ''2025-06-01 07:00'')
        (okReply [lowAt0800, highAt1400]) initialState) = Some d'"
    "tides d' = dayTides"
    "map Tide.timestamp (tides d') = map (\<lambda>p. parseDate hostEDT (p_t p)) [lowAt0800, highAt1400]"
    unfolding okReply_def d by blast
  moreover have "tideData (fetchNOAATideData hostEDT (clock ''2025-06-01 07:00'')
        (okReply [lowAt0800, highAt1400]) initialState)
     = Some (makeTideData dayTides (clock ''2025-06-01 07:00''))"
    by (simp add: okReply_def initialState_def fetchNOAATideData_def tryFetch_def Let_def
        dayTides_def toTide_hostEDT)
  ultimately show ?thesis
    by (simp add: tide_evals)
qed

text \<open>
  C10, as stated, fails on a sequence that is not ascending: for the records high 14:00,
  low 08:00 and \<open>now\<close> at 07:00 the field holds the high of 14:00, although the low of
  08:00 is also after \<open>now\<close> and earlier.
\<close>

theorem nextTide_of_unordered_sequence_is_not_earliest:
  "tideData (fetchNOAATideData hostEDT (clock ''2025-06-01 07:00'')
        (okReply [highAt1400, lowAt0800]) initialState)
     = Some (makeTideData swappedTides (clock ''2025-06-01 07:00''))
   \<and> nextTide (makeTideData swappedTides (clock ''2025-06-01 07:00'')) = Some (tideOf highAt1400)
   \<and> tideOf lowAt0800 \<in> set swappedTides
   \<and> Tide.timestamp (tideOf lowAt0800) > clock ''2025-06-01 07:00''
   \<and> Tide.timestamp (tideOf lowAt0800) < Tide.timestamp (tideOf highAt1400)"
  by (simp add: okReply_def initialState_def fetchNOAATideData_def tryFetch_def Let_def
      nextTide_makeTideData toTide_hostEDT tide_evals clock_evals)

text \<open>
  C10, amended. For every non-empty normalised event sequence, \<^verbatim>\<open>nextTide\<close> is the first
  event in sequence order whose timestamp is strictly after \<open>now\<close>, which is the earliest
  such event whenever the sequence is ascending by timestamp; when no event is after
  \<open>now\<close> it is the first element of the sequence. In every case it is an element of the
  sequence.
\<close>

theorem nextTide_first_future_in_sequence_else_first:
  assumes "tds \<noteq> []"
  shows "(\<exists>e\<in>set tds. nextTide (makeTideData tds now) = Some e)
     \<and> ((\<exists>u\<in>set tds. Tide.timestamp u > now) \<longrightarrow>
          (\<exists>pre e post. tds = pre @ e # post
             \<and> nextTide (makeTideData tds now) = Some e
             \<and> Tide.timestamp e > now
             \<and> (\<forall>u\<in>set pre. \<not> Tide.timestamp u > now)
             \<and> (sorted (map Tide.timestamp tds) \<longrightarrow>
                  (\<forall>u\<in>set tds. Tide.timestamp u > now \<longrightarrow> Tide.timestamp e \<le> Tide.timestamp u))))
     \<and> ((\<forall>u\<in>set tds. \<not> Tide.timestamp u > now) \<longrightarrow>
          nextTide (makeTideData tds now) = Some (hd tds))"
proof -
  let ?F = "\<lambda>tide. Tide.timestamp tide > now"
  have none: "nextTide (makeTideData tds now) = Some (hd tds)" if "find ?F tds = None"
    using that assms by (cases tds) (simp_all add: nextTide_makeTideData index0_def)
  have some: "\<exists>pre post. tds = pre @ e # post
             \<and> nextTide (makeTideData tds now) = Some e
             \<and> Tide.timestamp e > now
             \<and> (\<forall>u\<in>set pre. \<not> Tide.timestamp u > now)
             \<and> (sorted (map Tide.timestamp tds) \<longrightarrow>
                  (\<forall>u\<in>set tds. Tide.timestamp u > now \<longrightarrow> Tide.timestamp e \<le> Tide.timestamp u))"
    if f: "find ?F tds = Some e" for e
  proof -
    from f obtain pre post where split: "tds = pre @ e # post" "\<forall>u\<in>set pre. \<not> ?F u"
      and fe: "?F e"
      using find_split [of ?F tds e] by blast
    have "Tide.timestamp e \<le> Tide.timestamp u"
      if "sorted (map Tide.timestamp tds)" "u \<in> set tds" "?F u" for u
      using first_match_is_least [OF that(1) split that(2,3)] .
    moreover from f have "nextTide (makeTideData tds now) = Some e"
      by (simp add: nextTide_makeTideData)
    ultimately show ?thesis
      using split fe by blast
  qed
  have member: "\<exists>e\<in>set tds. nextTide (makeTideData tds now) = Some e"
  proof (cases "find ?F tds")
    case None
    with none assms show ?thesis by auto
  next
    case (Some e)
    with some [OF Some] show ?thesis by auto
  qed
  have future: "\<exists>pre e post. tds = pre @ e # post
             \<and> nextTide (makeTideData tds now) = Some e
             \<and> Tide.timestamp e > now
             \<and> (\<forall>u\<in>set pre. \<not> Tide.timestamp u > now)
             \<and> (sorted (map Tide.timestamp tds) \<longrightarrow>
                  (\<forall>u\<in>set tds. Tide.timestamp u > now \<longrightarrow> Tide.timestamp e \<le> Tide.timestamp u))"
    if "\<exists>u\<in>set tds. Tide.timestamp u > now"
  proof -
    from that have "find ?F tds \<noteq> None"
      by (auto simp add: find_None_iff)
    then obtain e where "find ?F tds = Some e"
      by blast
    from some [OF this] show ?thesis
      by blast
  qed
  have fallback: "nextTide (makeTideData tds now) = Some (hd tds)"
    if "\<forall>u\<in>set tds. \<not> Tide.timestamp u > now"
  proof -
    from that have "find ?F tds = None"
      by (simp add: find_None_iff)
    then show ?thesis
      by (rule none)
  qed
  from member future fallback show ?thesis
    by blast
qed

theorem nextTide_first_future_in_sequence_else_first_witness:
  "dayTides \<noteq> []
   \<and> sorted (map Tide.timestamp dayTides)
   \<and> nextTide (makeTideData dayTides (clock ''2025-06-01 10:00'')) = Some (tideOf highAt1400)
   \<and> nextTide (makeTideData dayTides (clock ''2025-06-01 20:00'')) = Some (tideOf lowAt0800)"
proof -
  have ne: "dayTides \<noteq> []" and s: "sorted (map Tide.timestamp dayTides)"
    by (simp_all add: tide_evals)
  have late: "\<forall>u\<in>set dayTides. \<not> Tide.timestamp u > clock ''2025-06-01 20:00''"
    by (simp add: tide_evals clock_evals)
  have "hd dayTides = tideOf lowAt0800"
    by (simp add: dayTides_def)
  with late nextTide_first_future_in_sequence_else_first [OF ne, where now = "clock ''2025-06-01 20:00''"]
  have a: "nextTide (makeTideData dayTides (clock ''2025-06-01 20:00'')) = Some (tideOf lowAt0800)"
    by simp
  have b: "nextTide (makeTideData dayTides (clock ''2025-06-01 10:00'')) = Some (tideOf highAt1400)"
    by (simp add: nextTide_makeTideData tide_evals clock_evals)
  from ne s a b show ?thesis
    by simp
qed

end
